theory Spec2Isabelle
  imports Complex_Main
begin

section \<open>Conventions of the embedding\<close>

text \<open>
  The module \<^verbatim>\<open>common/functions.py\<close> is embedded function by function.

  \<^item> A Python \<^verbatim>\<open>float\<close> and a numpy \<^verbatim>\<open>float64\<close> are modelled by the real number they
    stand for, and outside \<^verbatim>\<open>round_decimals_down\<close> arithmetic is exact. In
    \<^verbatim>\<open>round_decimals_down\<close> every operation is rounded to binary64, and where the
    language raises on leaving the binary64 range (conversion of a large \<^verbatim>\<open>int\<close>,
    \<^verbatim>\<open>math.floor\<close> of an infinity) the raise is a branch of the model.
  \<^item> A numpy quotient with a zero divisor is an infinity or not a number, which no real
    stands for: every statement about a quotient assumes that its divisor is not zero.
  \<^item> Every \<^verbatim>\<open>raise\<close>, failed \<^verbatim>\<open>assert\<close> and failing library call is a value
    \<open>Inl e\<close> of the result type \<open>error + 'a\<close>.
  \<^item> Objects that the finite-element library and scipy provide (mesh cells, splines,
    the reduction facade) are parameters of the functions that use them.
\<close>

datatype error =
    AssertionError
  | TypeError
  | ValueError
  | OverflowError
  | ZeroDivisionError
  | IndexError
  | RuntimeError

text \<open>Sequencing of two fallible steps: the first exception ends the call.\<close>

definition seq :: "error + 'a \<Rightarrow> ('a \<Rightarrow> error + 'b) \<Rightarrow> error + 'b" where
  "seq r f = (case r of Inl e \<Rightarrow> Inl e | Inr a \<Rightarrow> f a)"

section \<open>Boundary expressions\<close>

text \<open>
  A DOLFIN \<^verbatim>\<open>Point\<close> with its accessors \<^verbatim>\<open>x()\<close>, \<^verbatim>\<open>y()\<close>, \<^verbatim>\<open>z()\<close>.
\<close>

type_synonym point = "real \<times> real \<times> real"

definition px :: "point \<Rightarrow> real" where "px n = fst n"
definition py :: "point \<Rightarrow> real" where "py n = fst (snd n)"
definition pz :: "point \<Rightarrow> real" where "pz n = snd (snd n)"

text \<open>
  The cell context handed to \<^verbatim>\<open>eval_cell\<close>: the cell number and the local facet number,
  which the library sets to a negative value when the entity is not a facet.
\<close>

record ufc_cell =
  index :: nat
  local_facet :: int

text \<open>
  The mesh is the geometry collaborator. \<^verbatim>\<open>Cell(mesh, i)\<close> selects a cell and
  \<^verbatim>\<open>cell.normal(f)\<close> asks it for the normal of its facet \<open>f\<close>; the query is a
  library call, so it may raise.
\<close>

type_synonym cell = "int \<Rightarrow> error + point"
type_synonym mesh = "nat \<Rightarrow> cell"

definition Cell :: "mesh \<Rightarrow> nat \<Rightarrow> cell" where
  "Cell msh i = msh i"

definition normal :: "cell \<Rightarrow> int \<Rightarrow> error + point" where
  "normal c f = c f"

text \<open>
  The dictionary \<^verbatim>\<open>param\<close>. The entries \<^verbatim>\<open>param["time"].t\<close> and
  \<^verbatim>\<open>param["nm"].cycle\<close> are the fields \<open>time_t\<close> and \<open>nm_cycle\<close>. The entry
  \<^verbatim>\<open>param["func"]\<close> is a spline representation that only \<^verbatim>\<open>scipy.interpolate.splev\<close>
  reads; it is kept as the function that \<^verbatim>\<open>splev\<close> evaluates.
\<close>

record param =
  time_t :: real
  period :: real
  nm_cycle :: int
  Area :: real
  Vsc :: real
  Tsc :: real
  func :: "real \<Rightarrow> real"

definition splev :: "real \<Rightarrow> (real \<Rightarrow> real) \<Rightarrow> real" where
  "splev x f = f x"

text \<open>
  The waveform lookup shared by \<^verbatim>\<open>Inflow\<close> and \<^verbatim>\<open>Outflow\<close>:
  \<^verbatim>\<open>splev(t*Tsc - nm*period*Tsc, func)\<close>.
\<close>

definition sample :: "param \<Rightarrow> real" where
  "sample prm =
     splev (time_t prm * Tsc prm - of_int (nm_cycle prm) * period prm * Tsc prm) (func prm)"

text \<open>Item assignment \<^verbatim>\<open>values[i] = v\<close> on the output array.\<close>

definition setitem :: "real list \<Rightarrow> nat \<Rightarrow> real \<Rightarrow> error + real list" where
  "setitem values i v = (if i < length values then Inr (values[i := v]) else Inl IndexError)"

text \<open>\<^verbatim>\<open>Inflow.eval_cell(values, x, ufc_cell)\<close>; the result is the array after the call.\<close>

definition Inflow_eval_cell ::
  "param \<Rightarrow> mesh \<Rightarrow> real list \<Rightarrow> real list \<Rightarrow> ufc_cell \<Rightarrow> error + real list" where
  "Inflow_eval_cell prm msh values x c =
     (let cell = Cell msh (index c) in
      if \<not> local_facet c \<ge> 0 then Inl AssertionError
      else seq (normal cell (local_facet c)) (\<lambda>n.
        let val = (sample prm / Area prm) / Vsc prm in
        seq (setitem values 0 (- px n * val)) (\<lambda>values.
        seq (setitem values 1 (- py n * val)) (\<lambda>values.
        setitem values 2 (- pz n * val)))))"

text \<open>\<^verbatim>\<open>Outflow.eval_cell(values, x, ufc_cell)\<close>.\<close>

definition Outflow_eval_cell ::
  "param \<Rightarrow> mesh \<Rightarrow> real list \<Rightarrow> real list \<Rightarrow> ufc_cell \<Rightarrow> error + real list" where
  "Outflow_eval_cell prm msh values x c =
     (let cell = Cell msh (index c) in
      if \<not> local_facet c \<ge> 0 then Inl AssertionError
      else seq (normal cell (local_facet c)) (\<lambda>n.
        let val = sample prm * 133.322 / (1060 * Vsc prm * Vsc prm) in
        setitem values 0 val))"

text \<open>\<^verbatim>\<open>Temperature_balloon.eval_cell(values, x, ufc_cell)\<close>: the argument of the spline
  is \<^verbatim>\<open>t*Tsc\<close>, without the cycle offset.\<close>

definition Temperature_balloon_eval_cell ::
  "param \<Rightarrow> mesh \<Rightarrow> real list \<Rightarrow> real list \<Rightarrow> ufc_cell \<Rightarrow> error + real list" where
  "Temperature_balloon_eval_cell prm msh values x c =
     (let cell = Cell msh (index c) in
      if \<not> local_facet c \<ge> 0 then Inl AssertionError
      else seq (normal cell (local_facet c)) (\<lambda>n.
        let val = splev (time_t prm * Tsc prm) (func prm) in
        setitem values 0 val))"

section \<open>Null space of the pressure operator\<close>

text \<open>
  A function's degree-of-freedom vector is the list of its entries; a function space is
  known to \<^verbatim>\<open>attach_nullspace\<close> only through its dofmap, the list of the entries it owns.

  \<^verbatim>\<open>Vector(x_.vector())\<close> is DOLFIN's constructor of a vector from a vector; it makes a
  copy of its argument, entries included.
\<close>

definition Vector :: "real list \<Rightarrow> real list" where
  "Vector v = v"

text \<open>\<^verbatim>\<open>Q.dofmap().set(null_vec, value)\<close>: every entry owned by \<open>Q\<close> receives the value.\<close>

definition dofmap_set :: "nat list \<Rightarrow> real list \<Rightarrow> real \<Rightarrow> real list" where
  "dofmap_set Q v val = fold (\<lambda>d w. w[d := val]) Q v"

text \<open>\<^verbatim>\<open>null_vec.norm('l2')\<close>.\<close>

definition norm_l2 :: "real list \<Rightarrow> real" where
  "norm_l2 v = sqrt (sum_list (map (\<lambda>a. a * a) v))"

text \<open>Division of two Python floats raises on a zero divisor.\<close>

definition float_truediv :: "real \<Rightarrow> real \<Rightarrow> error + real" where
  "float_truediv a b = (if b = 0 then Inl ZeroDivisionError else Inr (a / b))"

text \<open>
  The operator keeps what \<^verbatim>\<open>set_nullspace\<close> attached and the attribute \<^verbatim>\<open>null_space\<close>
  that keeps the basis alive.
\<close>

record operator =
  attached_nullspace :: "real list list option"
  null_space :: "real list list option"

definition attach_nullspace ::
  "operator \<Rightarrow> real list \<Rightarrow> nat list \<Rightarrow> error + operator \<times> real list list" where
  "attach_nullspace Ap x_vector Q =
     (let null_vec = Vector x_vector;
          null_vec = dofmap_set Q null_vec 1.0
      in seq (float_truediv 1.0 (norm_l2 null_vec)) (\<lambda>c.
        let null_vec = map (\<lambda>a. a * c) null_vec;
            basis = [null_vec];
            Aa = Ap\<lparr>attached_nullspace := Some basis, null_space := Some basis\<rparr>
        in Inr (Aa, basis)))"

section \<open>Courant and flow-scale estimates\<close>

text \<open>
  A scalar function is known to \<^verbatim>\<open>DENO\<close> through \<^verbatim>\<open>compute_vertex_values(mesh)\<close>, which
  returns one value for each vertex of the process's mesh; a function is therefore its
  value at each vertex number. A process holds its part of the mesh, the components
  \<^verbatim>\<open>u_.sub(i)\<close> of the velocity, as many as \<^verbatim>\<open>u_.geometric_dimension()\<close>, and the
  length scale \<^verbatim>\<open>h_f_X\<close>.
\<close>

type_synonym field = "nat \<Rightarrow> real"

record process =
  num_vertices :: nat
  u_sub :: "field list"
  h_f_X :: field

definition compute_vertex_values :: "field \<Rightarrow> nat \<Rightarrow> real list" where
  "compute_vertex_values f n = map f [0..<n]"

text \<open>\<^verbatim>\<open>np.max\<close> raises on an empty array.\<close>

fun np_max :: "real list \<Rightarrow> error + real" where
  "np_max [] = Inl ValueError"
| "np_max (a # as) = Inr (fold max as a)"

text \<open>
  The loop over \<^verbatim>\<open>range(u_.geometric_dimension())\<close>, with the pair
  \<^verbatim>\<open>(DN_local, vertex_mag_u)\<close> as its state.
\<close>

fun DENO_loop ::
  "real list \<Rightarrow> nat \<Rightarrow> field list \<Rightarrow> real \<times> real list \<Rightarrow> error + real \<times> real list" where
  "DENO_loop vertex_values_h n [] st = Inr st"
| "DENO_loop vertex_values_h n (ui # us) st =
     (let vertex_values_u = compute_vertex_values ui n in
      seq (np_max (map abs (map2 (/) vertex_values_u vertex_values_h))) (\<lambda>m.
        DENO_loop vertex_values_h n us
          (fst st + m, map2 (+) (snd st) (map (\<lambda>a. a * a) vertex_values_u))))"

text \<open>What one process computes before the reductions.\<close>

definition DENO_local :: "process \<Rightarrow> error + real \<times> real" where
  "DENO_local p =
     (let vertex_values_h = compute_vertex_values (h_f_X p) (num_vertices p);
          vertex_mag_u = replicate (length vertex_values_h) 0
      in seq (DENO_loop vertex_values_h (num_vertices p) (u_sub p) (0, vertex_mag_u)) (\<lambda>st.
         seq (np_max (map2 (*) (map sqrt (snd st)) vertex_values_h)) (\<lambda>NM_local.
         Inr (fst st, NM_local))))"

text \<open>
  The reduction facade \<^verbatim>\<open>Mpi\<close> is a parameter: a reduction receives the scalar of each
  process, in rank order, and hands every process the same result.
\<close>

record mpi =
  Max_reduce :: "real list \<Rightarrow> real"
  Sum_reduce :: "real list \<Rightarrow> real"

text \<open>
  Modelled from the spec: the class behind \<^verbatim>\<open>Mpi\<close> is not part of this module; the spec
  gives its reductions as \<^verbatim>\<open>Max(scalar) -> scalar\<close>, the global maximum, and
  \<^verbatim>\<open>Sum(scalar) -> scalar\<close>, the global sum.
\<close>

definition Mpi_facade :: mpi where
  "Mpi_facade = \<lparr>Max_reduce = (\<lambda>xs. Max (set xs)), Sum_reduce = sum_list\<rparr>"

fun collect :: "(error + 'a) list \<Rightarrow> error + 'a list" where
  "collect [] = Inr []"
| "collect (r # rs) = seq r (\<lambda>a. seq (collect rs) (\<lambda>as. Inr (a # as)))"

text \<open>\<^verbatim>\<open>DENO(u_, Mpi, h_f_X)\<close> run by all processes; the result is the pair every process
  returns.\<close>

definition DENO :: "mpi \<Rightarrow> process list \<Rightarrow> error + real \<times> real" where
  "DENO Mpi ps =
     seq (collect (map DENO_local ps)) (\<lambda>locals.
       let DN = Max_reduce Mpi (map fst locals);
           NM = Max_reduce Mpi (map snd locals)
       in Inr (DN, NM))"

section \<open>Rounding down\<close>

text \<open>
  The values a caller can pass for \<^verbatim>\<open>decimals\<close>. A \<^verbatim>\<open>bool\<close> is an instance of
  \<^verbatim>\<open>int\<close> in Python.
\<close>

datatype pyfloat = Finite real | PosInf | NegInf | NaN

datatype pyobj = PyInt int | PyBool bool | PyFloat pyfloat | PyStr string | PyNone

fun isinstance_int :: "pyobj \<Rightarrow> bool" where
  "isinstance_int (PyInt i) = True"
| "isinstance_int (PyBool b) = True"
| "isinstance_int x = False"

fun int_value :: "pyobj \<Rightarrow> int" where
  "int_value (PyInt i) = i"
| "int_value (PyBool b) = (if b then 1 else 0)"
| "int_value x = 0"

text \<open>
  In this function the rounding of binary64 arithmetic decides what is returned, so it
  is part of the model: a real is rounded to the nearest multiple of the spacing of
  its binade, ties to the even multiple. The binade of a real is the integer part of
  its binary logarithm, not below that of the smallest normal number.
\<close>

definition pow2 :: "int \<Rightarrow> real" where
  "pow2 e = (if 0 \<le> e then 2 ^ nat e else 1 / 2 ^ nat (- e))"

definition binade :: "real \<Rightarrow> int" where
  "binade r = max \<lfloor>log 2 \<bar>r\<bar>\<rfloor> (- 1022)"

definition round_half_even :: "real \<Rightarrow> int" where
  "round_half_even r =
     (let f = \<lfloor>r\<rfloor> in
      if r - of_int f < 1 / 2 then f
      else if 1 / 2 < r - of_int f then f + 1
      else if even f then f else f + 1)"

definition binary64 :: "real \<Rightarrow> real" where
  "binary64 r =
     of_int (round_half_even (r / pow2 (binade r - 52))) * pow2 (binade r - 52)"

text \<open>
  The binary64 range: a real of this magnitude or more rounds to an infinity, a real of
  smaller magnitude to a finite float.
\<close>

definition float_bound :: real where
  "float_bound = 2 ^ 1024 - 2 ^ 970"

definition float_of_real :: "real \<Rightarrow> pyfloat" where
  "float_of_real r =
     (if r \<ge> float_bound then PosInf
      else if r \<le> - float_bound then NegInf
      else Finite (binary64 r))"

text \<open>The conversion of an \<^verbatim>\<open>int\<close> operand to \<^verbatim>\<open>float\<close> raises when it is too large.\<close>

definition int_to_float :: "int \<Rightarrow> error + real" where
  "int_to_float i =
     (if \<bar>of_int i\<bar> \<ge> float_bound then Inl OverflowError else Inr (binary64 (of_int i)))"

text \<open>The product of a float and a finite float, rounded.\<close>

fun float_mul :: "pyfloat \<Rightarrow> real \<Rightarrow> pyfloat" where
  "float_mul (Finite a) b = float_of_real (a * b)"
| "float_mul PosInf b = (if b > 0 then PosInf else if b < 0 then NegInf else NaN)"
| "float_mul NegInf b = (if b > 0 then NegInf else if b < 0 then PosInf else NaN)"
| "float_mul NaN b = NaN"

fun math_floor :: "pyfloat \<Rightarrow> error + int" where
  "math_floor (Finite a) = Inr \<lfloor>a\<rfloor>"
| "math_floor PosInf = Inl OverflowError"
| "math_floor NegInf = Inl OverflowError"
| "math_floor NaN = Inl ValueError"

text \<open>True division of two \<^verbatim>\<open>int\<close>s: the exact quotient, rounded once.\<close>

definition int_truediv :: "int \<Rightarrow> int \<Rightarrow> error + real" where
  "int_truediv a b =
     (if b = 0 then Inl ZeroDivisionError
      else if \<bar>of_int a / of_int b\<bar> \<ge> float_bound then Inl OverflowError
      else Inr (binary64 (of_int a / of_int b)))"

definition round_decimals_down :: "pyfloat \<Rightarrow> pyobj \<Rightarrow> error + pyobj" where
  "round_decimals_down number decimals =
     (if \<not> isinstance_int decimals then Inl TypeError
      else if int_value decimals < 0 then Inl ValueError
      else if int_value decimals = 0 then seq (math_floor number) (\<lambda>q. Inr (PyInt q))
      else
        let factor = 10 ^ nat (int_value decimals) in
        seq (int_to_float factor) (\<lambda>f.
        seq (math_floor (float_mul number f)) (\<lambda>q.
        seq (int_truediv q factor) (\<lambda>r. Inr (PyFloat (Finite r))))))"

section \<open>History buffers\<close>

text \<open>
  A history buffer is a Python list of function objects. An object is an address, and
  the store gives the contents of each object, so that two slots may name one object.
  \<^verbatim>\<open>dst.assign(src)\<close> copies the contents of \<open>src\<close> into \<open>dst\<close>.
\<close>

type_synonym addr = nat
type_synonym 'v store = "addr \<Rightarrow> 'v"

definition getitem :: "'a list \<Rightarrow> nat \<Rightarrow> error + 'a" where
  "getitem xs i = (if i < length xs then Inr (xs ! i) else Inl IndexError)"

definition assign :: "addr \<Rightarrow> addr \<Rightarrow> 'v store \<Rightarrow> 'v store" where
  "assign dst src s = s(dst := s src)"

text \<open>
  The body of \<^verbatim>\<open>update_variables\<close> is seven statements \<^verbatim>\<open>b[k].assign(b[j])\<close>; they are
  kept as data, in the order of the source. The lists \<^verbatim>\<open>u_\<close>, \<^verbatim>\<open>p_\<close> and \<^verbatim>\<open>T_\<close> are
  \<open>u_list\<close>, \<open>p_list\<close> and \<open>T_list\<close>.
\<close>

datatype buffer = U_buf | P_buf | T_buf

definition update_variables_steps :: "(buffer \<times> nat \<times> nat) list" where
  "update_variables_steps =
     [(U_buf, 2, 1), (U_buf, 1, 0),
      (P_buf, 2, 1), (P_buf, 1, 0),
      (T_buf, 3, 2), (T_buf, 2, 1), (T_buf, 1, 0)]"

definition step :: "(buffer \<Rightarrow> addr list) \<Rightarrow> buffer \<times> nat \<times> nat \<Rightarrow> 'v store \<Rightarrow> error + 'v store" where
  "step bufs st s =
     (case st of (b, k, j) \<Rightarrow>
        seq (getitem (bufs b) k) (\<lambda>dst.
        seq (getitem (bufs b) j) (\<lambda>src.
        Inr (assign dst src s))))"

fun run_steps ::
  "(buffer \<Rightarrow> addr list) \<Rightarrow> (buffer \<times> nat \<times> nat) list \<Rightarrow> 'v store \<Rightarrow> error + 'v store" where
  "run_steps bufs [] s = Inr s"
| "run_steps bufs (st # sts) s = seq (step bufs st s) (run_steps bufs sts)"

definition update_variables ::
  "addr list \<Rightarrow> addr list \<Rightarrow> addr list \<Rightarrow> 'v store \<Rightarrow> error + 'v store" where
  "update_variables u_list p_list T_list s =
     run_steps (\<lambda>b. case b of U_buf \<Rightarrow> u_list | P_buf \<Rightarrow> p_list | T_buf \<Rightarrow> T_list)
       update_variables_steps s"

text \<open>The contents of a buffer, slot by slot.\<close>

definition contents :: "'v store \<Rightarrow> addr list \<Rightarrow> 'v list" where
  "contents s buf = map s buf"

text \<open>
  Repeated calls of \<^verbatim>\<open>update_variables\<close> with nothing written in between, and the
  contents of the three buffers afterwards.
\<close>

fun rotate_times :: "nat \<Rightarrow> addr list \<Rightarrow> addr list \<Rightarrow> addr list \<Rightarrow> 'v store \<Rightarrow> error + 'v store" where
  "rotate_times 0 u_list p_list T_list s = Inr s"
| "rotate_times (Suc n) u_list p_list T_list s =
     seq (update_variables u_list p_list T_list s) (rotate_times n u_list p_list T_list)"

definition history_after ::
  "nat \<Rightarrow> addr list \<Rightarrow> addr list \<Rightarrow> addr list \<Rightarrow> 'v store \<Rightarrow> error + 'v list \<times> 'v list \<times> 'v list" where
  "history_after n u_list p_list T_list s =
     seq (rotate_times n u_list p_list T_list s) (\<lambda>s'.
       Inr (contents s' u_list, contents s' p_list, contents s' T_list))"

section \<open>Properties of the boundary expressions\<close>

lemma seq_Inr [simp]: "seq (Inr a) f = f a"
  by (simp add: seq_def)

lemma seq_Inl [simp]: "seq (Inl e) f = Inl e"
  by (simp add: seq_def)

text \<open>
  Claim C3. When \<^verbatim>\<open>Inflow\<close> is evaluated at a cell context whose local facet number is
  not negative, the library returns the facet's outward normal \<open>(nx, ny, nz)\<close>, and
  \<open>Area\<close> and \<open>Vsc\<close> are not zero, the three-component output is \<open>- normal * val\<close> with
  \<open>val = (sample / Area) / Vsc\<close> and \<open>sample\<close> the spline at
  \<open>t * Tsc - nm * period * Tsc\<close>. For a positive waveform value and positive \<open>Area\<close> and
  \<open>Vsc\<close> the factor \<open>val\<close> is positive, so the output points against the outward normal.
\<close>

theorem Inflow_eval_cell_value:
  assumes "0 \<le> local_facet c"
    and "msh (index c) (local_facet c) = Inr (nx, ny, nz)"
    and "length vals = 3"
    and "Area prm \<noteq> 0" and "Vsc prm \<noteq> 0"
  shows "Inflow_eval_cell prm msh vals x c =
      Inr [- nx * ((sample prm / Area prm) / Vsc prm),
           - ny * ((sample prm / Area prm) / Vsc prm),
           - nz * ((sample prm / Area prm) / Vsc prm)]
    \<and> sample prm =
        func prm (time_t prm * Tsc prm - of_int (nm_cycle prm) * period prm * Tsc prm)
    \<and> (0 < sample prm \<and> 0 < Area prm \<and> 0 < Vsc prm
        \<longrightarrow> 0 < (sample prm / Area prm) / Vsc prm)"
proof -
  obtain a b d where v: "vals = [a, b, d]"
    using assms(3) by (auto simp: length_Suc_conv numeral_3_eq_3)
  show ?thesis
    using assms(1,2)
    by (simp add: Inflow_eval_cell_def Cell_def normal_def setitem_def v px_def py_def pz_def
        sample_def splev_def Let_def)
qed

text \<open>
  The scenario of the specification: the waveform has the value 10 at time 1,
  \<open>Tsc = 1\<close>, \<open>period = 3\<close>, \<open>Area = 2\<close>, \<open>Vsc = 5\<close>, \<open>t = 1\<close>, cycle 0, and the facet
  normal is \<open>(1, 0, 0)\<close>; the output is \<open>(-1, 0, 0)\<close>.
\<close>

theorem Inflow_eval_cell_value_witness:
  "Inflow_eval_cell \<lparr>time_t = 1, period = 3, nm_cycle = 0, Area = 2, Vsc = 5, Tsc = 1, func = (\<lambda>a. 10 * a)\<rparr>
     (\<lambda>i f. Inr (1, 0, 0)) [0, 0, 0] [] \<lparr>index = 4, local_facet = 2\<rparr> = Inr [- 1, 0, 0]"
  using Inflow_eval_cell_value [where c = "\<lparr>index = 4, local_facet = 2\<rparr>"
      and msh = "(\<lambda>i f. Inr (1, 0, 0))" and nx = 1 and ny = 0 and nz = 0
      and vals = "[0, 0, 0]" and x = "[]"
      and prm = "\<lparr>time_t = 1, period = 3, nm_cycle = 0, Area = 2, Vsc = 5, Tsc = 1, func = (\<lambda>a. 10 * a)\<rparr>"]
  by simp

text \<open>
  Claim C4, as stated, at a cell context with local facet number \<open>-1\<close>: the evaluation
  of \<^verbatim>\<open>Outflow\<close> does not succeed; the assertion on the facet number fails.
\<close>

theorem Outflow_eval_cell_interior_fails:
  "Outflow_eval_cell \<lparr>time_t = 1, period = 3, nm_cycle = 0, Area = 2, Vsc = 5, Tsc = 1, func = (\<lambda>a. 10 * a)\<rparr>
     (\<lambda>i f. Inr (1, 0, 0)) [0] [] \<lparr>index = 0, local_facet = - 1\<rparr> = Inl AssertionError"
  by (simp add: Outflow_eval_cell_def)

text \<open>
  Claim C4, amended. \<^verbatim>\<open>Outflow\<close> asserts that the local facet number is not negative
  and asks the library for the facet normal before it computes its value: its
  evaluation fails with an assertion error on a negative local facet number and fails
  when the normal query fails. Otherwise, for \<open>Vsc\<close> other than zero, it stores the
  scalar \<open>sample * 133.322 / (1060 * Vsc\<^sup>2)\<close>, which is the same for every normal.
\<close>

theorem Outflow_eval_cell_value:
  "(local_facet c < 0 \<longrightarrow> Outflow_eval_cell prm msh vals x c = Inl AssertionError)
 \<and> (0 \<le> local_facet c \<and> msh (index c) (local_facet c) = Inl e \<longrightarrow>
      Outflow_eval_cell prm msh vals x c = Inl e)
 \<and> (0 \<le> local_facet c \<and> msh (index c) (local_facet c) = Inr n \<and> vals \<noteq> []
      \<and> Vsc prm \<noteq> 0 \<longrightarrow>
      Outflow_eval_cell prm msh vals x c
        = Inr (vals[0 := sample prm * 133.322 / (1060 * (Vsc prm)\<^sup>2)]))"
  by (simp add: Outflow_eval_cell_def Cell_def normal_def setitem_def power2_eq_square)

theorem Outflow_eval_cell_value_witness:
  "Outflow_eval_cell \<lparr>time_t = 1, period = 3, nm_cycle = 0, Area = 2, Vsc = 5, Tsc = 1, func = (\<lambda>a. 10 * a)\<rparr>
     (\<lambda>i f. Inr (1, 0, 0)) [0] [] \<lparr>index = 0, local_facet = - 1\<rparr> = Inl AssertionError
   \<and> Outflow_eval_cell \<lparr>time_t = 1, period = 3, nm_cycle = 0, Area = 2, Vsc = 5, Tsc = 1, func = (\<lambda>a. 10 * a)\<rparr>
     (\<lambda>i f. Inl RuntimeError) [0] [] \<lparr>index = 0, local_facet = 0\<rparr> = Inl RuntimeError
   \<and> Outflow_eval_cell \<lparr>time_t = 1, period = 3, nm_cycle = 0, Area = 2, Vsc = 5, Tsc = 1, func = (\<lambda>a. 10 * a)\<rparr>
     (\<lambda>i f. Inr (1, 0, 0)) [0] [] \<lparr>index = 0, local_facet = 0\<rparr>
       = Inr [10 * 133.322 / (1060 * 5\<^sup>2)]"
  using Outflow_eval_cell_value [where c = "\<lparr>index = 0, local_facet = - 1\<rparr>"
      and msh = "(\<lambda>i f. Inr (1, 0, 0))" and vals = "[0]" and x = "[]" and prm = "\<lparr>time_t = 1, period = 3, nm_cycle = 0, Area = 2, Vsc = 5, Tsc = 1, func = (\<lambda>a. 10 * a)\<rparr>"]
    Outflow_eval_cell_value [where c = "\<lparr>index = 0, local_facet = 0\<rparr>"
      and msh = "(\<lambda>i f. Inl RuntimeError)" and e = RuntimeError
      and vals = "[0]" and x = "[]" and prm = "\<lparr>time_t = 1, period = 3, nm_cycle = 0, Area = 2, Vsc = 5, Tsc = 1, func = (\<lambda>a. 10 * a)\<rparr>"]
    Outflow_eval_cell_value [where c = "\<lparr>index = 0, local_facet = 0\<rparr>"
      and msh = "(\<lambda>i f. Inr (1, 0, 0))" and n = "(1, 0, 0)"
      and vals = "[0]" and x = "[]" and prm = "\<lparr>time_t = 1, period = 3, nm_cycle = 0, Area = 2, Vsc = 5, Tsc = 1, func = (\<lambda>a. 10 * a)\<rparr>"]
  by (simp add: sample_def splev_def)

text \<open>
  Claim C10. \<^verbatim>\<open>Temperature_balloon\<close> asserts that the local facet number is not
  negative and asks the library for the facet normal on every evaluation, although its
  value, the spline at \<open>t * Tsc\<close>, does not use the normal: on a negative local facet
  number the evaluation fails with an assertion error, a failing normal query fails the
  evaluation, and otherwise the value stored is the spline at \<open>t * Tsc\<close>.
\<close>

theorem Temperature_balloon_eval_cell_value:
  "(local_facet c < 0 \<longrightarrow>
      Temperature_balloon_eval_cell prm msh vals x c = Inl AssertionError)
 \<and> (0 \<le> local_facet c \<and> msh (index c) (local_facet c) = Inl e \<longrightarrow>
      Temperature_balloon_eval_cell prm msh vals x c = Inl e)
 \<and> (0 \<le> local_facet c \<and> msh (index c) (local_facet c) = Inr n \<and> vals \<noteq> [] \<longrightarrow>
      Temperature_balloon_eval_cell prm msh vals x c
        = Inr (vals[0 := func prm (time_t prm * Tsc prm)]))"
  by (simp add: Temperature_balloon_eval_cell_def Cell_def normal_def setitem_def splev_def)

theorem Temperature_balloon_eval_cell_value_witness:
  "Temperature_balloon_eval_cell \<lparr>time_t = 1, period = 3, nm_cycle = 0, Area = 2, Vsc = 5, Tsc = 1, func = (\<lambda>a. 10 * a)\<rparr>
     (\<lambda>i f. Inr (1, 0, 0)) [0] [] \<lparr>index = 0, local_facet = - 1\<rparr> = Inl AssertionError
   \<and> Temperature_balloon_eval_cell \<lparr>time_t = 1, period = 3, nm_cycle = 0, Area = 2, Vsc = 5, Tsc = 1, func = (\<lambda>a. 10 * a)\<rparr>
     (\<lambda>i f. Inl RuntimeError) [0] [] \<lparr>index = 0, local_facet = 0\<rparr> = Inl RuntimeError
   \<and> Temperature_balloon_eval_cell \<lparr>time_t = 1, period = 3, nm_cycle = 0, Area = 2, Vsc = 5, Tsc = 1, func = (\<lambda>a. 10 * a)\<rparr>
     (\<lambda>i f. Inr (1, 0, 0)) [0] [] \<lparr>index = 0, local_facet = 0\<rparr> = Inr [10]"
  using Temperature_balloon_eval_cell_value [where c = "\<lparr>index = 0, local_facet = - 1\<rparr>"
      and msh = "(\<lambda>i f. Inr (1, 0, 0))" and vals = "[0]" and x = "[]" and prm = "\<lparr>time_t = 1, period = 3, nm_cycle = 0, Area = 2, Vsc = 5, Tsc = 1, func = (\<lambda>a. 10 * a)\<rparr>"]
    Temperature_balloon_eval_cell_value [where c = "\<lparr>index = 0, local_facet = 0\<rparr>"
      and msh = "(\<lambda>i f. Inl RuntimeError)" and e = RuntimeError
      and vals = "[0]" and x = "[]" and prm = "\<lparr>time_t = 1, period = 3, nm_cycle = 0, Area = 2, Vsc = 5, Tsc = 1, func = (\<lambda>a. 10 * a)\<rparr>"]
    Temperature_balloon_eval_cell_value [where c = "\<lparr>index = 0, local_facet = 0\<rparr>"
      and msh = "(\<lambda>i f. Inr (1, 0, 0))" and n = "(1, 0, 0)"
      and vals = "[0]" and x = "[]" and prm = "\<lparr>time_t = 1, period = 3, nm_cycle = 0, Area = 2, Vsc = 5, Tsc = 1, func = (\<lambda>a. 10 * a)\<rparr>"]
  by simp

section \<open>Periodicity of the waveform lookup\<close>

text \<open>
  Claim C5, as stated, fails in two ways. For the sawtooth \<open>frac\<close>, which repeats on the
  whole line with the period \<open>period * Tsc = 1\<close>, with \<open>period = 2\<close>, \<open>Tsc = 1 / 2\<close>,
  \<open>t = 0\<close> and \<open>k = 1\<close>, the lookup at time \<open>t + k * period * Tsc\<close> in cycle 0 reads the
  waveform at \<open>1 / 2\<close> and the lookup at time \<open>t\<close> in cycle \<open>k\<close> reads it at \<open>- 1\<close>. For
  the piecewise linear spline through \<open>(0, 0)\<close>, \<open>(1, 10)\<close>, \<open>(2, 0)\<close>, which covers one
  period \<open>period * Tsc = 2\<close> and is continued linearly outside as \<^verbatim>\<open>splev\<close> does, with
  \<open>period = 4\<close>, \<open>Tsc = 1 / 2\<close>, \<open>t = 1\<close> and \<open>k = 1\<close>, the first lookup gives 5 and the
  second \<open>- 15\<close>.
\<close>

theorem sample_periodicity_as_stated_fails:
  "sample \<lparr>time_t = 0 + of_int 1 * 2 * (1 / 2), period = 2, nm_cycle = 0, Area = 1, Vsc = 1,
            Tsc = 1 / 2, func = frac\<rparr>
   \<noteq> sample \<lparr>time_t = 0, period = 2, nm_cycle = 1, Area = 1, Vsc = 1, Tsc = 1 / 2,
              func = frac\<rparr>
   \<and> sample \<lparr>time_t = 1 + of_int 1 * 4 * (1 / 2), period = 4, nm_cycle = 0, Area = 1, Vsc = 1,
            Tsc = 1 / 2, func = (\<lambda>a. if a \<le> 1 then 10 * a else 20 - 10 * a)\<rparr>
   \<noteq> sample \<lparr>time_t = 1, period = 4, nm_cycle = 1, Area = 1, Vsc = 1, Tsc = 1 / 2,
              func = (\<lambda>a. if a \<le> 1 then 10 * a else 20 - 10 * a)\<rparr>"
  by (simp add: sample_def splev_def frac_def)

text \<open>
  Claim C5, amended. For every waveform, every time \<open>t\<close> and every integer \<open>k\<close>, the
  lookup at time \<open>t + k * period\<close> with cycle count \<open>k\<close> gives the value of the lookup at
  time \<open>t\<close> with cycle count 0: the cycle offset \<open>k * period * Tsc\<close> undoes a shift of the
  time by \<open>k\<close> whole periods, so the same stretch of the spline is read in every cycle.
  Nothing is assumed of the spline.
\<close>

theorem sample_cycle_offset:
  "sample (prm\<lparr>time_t := t + of_int k * period prm, nm_cycle := k\<rparr>)
     = sample (prm\<lparr>time_t := t, nm_cycle := 0\<rparr>)"
  by (simp add: sample_def algebra_simps)

section \<open>Properties of the history rotation\<close>

lemma list3: "length xs = 3 \<Longrightarrow> \<exists>a b c. xs = [a, b, c]"
  by (auto simp: length_Suc_conv numeral_3_eq_3)

lemma list4: "length xs = 4 \<Longrightarrow> \<exists>a b c d. xs = [a, b, c, d]"
proof -
  assume "length xs = 4"
  then have "length xs = Suc (Suc (Suc (Suc 0)))" by simp
  then show ?thesis by (auto simp: length_Suc_conv)
qed

lemma update_variables_assigns:
  "update_variables [u0, u1, u2] [p0, p1, p2] [T0, T1, T2, T3] s =
     Inr (assign T1 T0 (assign T2 T1 (assign T3 T2
           (assign p1 p0 (assign p2 p1 (assign u1 u0 (assign u2 u1 s)))))))"
  by (simp add: update_variables_def update_variables_steps_def step_def getitem_def)

lemma distinct_both:
  assumes "distinct ([u0, u1, u2] @ [p0, p1, p2] @ [T0, T1, T2, T3 :: nat])"
  shows "distinct [T3, T2, T1, T0, p2, p1, p0, u2, u1, u0]"
proof -
  have "distinct (rev [T3, T2, T1, T0, p2, p1, p0, u2, u1, u0])"
    using assms by (simp only: rev.simps append.simps)
  then show ?thesis by (simp only: distinct_rev)
qed

lemma rotated_u:
  assumes "distinct ([u0, u1, u2] @ [p0, p1, p2] @ [T0, T1, T2, T3])"
  shows "map (assign T1 T0 (assign T2 T1 (assign T3 T2
           (assign p1 p0 (assign p2 p1 (assign u1 u0 (assign u2 u1 s))))))) [u0, u1, u2]
         = [s u0, s u0, s u1]"
  using assms distinct_both [OF assms] by (simp add: assign_def)

lemma rotated_p:
  assumes "distinct ([u0, u1, u2] @ [p0, p1, p2] @ [T0, T1, T2, T3])"
  shows "map (assign T1 T0 (assign T2 T1 (assign T3 T2
           (assign p1 p0 (assign p2 p1 (assign u1 u0 (assign u2 u1 s))))))) [p0, p1, p2]
         = [s p0, s p0, s p1]"
  using assms distinct_both [OF assms] by (simp add: assign_def)

lemma rotated_T:
  assumes "distinct ([u0, u1, u2] @ [p0, p1, p2] @ [T0, T1, T2, T3])"
  shows "map (assign T1 T0 (assign T2 T1 (assign T3 T2
           (assign p1 p0 (assign p2 p1 (assign u1 u0 (assign u2 u1 s))))))) [T0, T1, T2, T3]
         = [s T0, s T0, s T1, s T2]"
  using assms distinct_both [OF assms] by (simp add: assign_def)

lemma rotated_other:
  assumes "a \<notin> set ([u0, u1, u2] @ [p0, p1, p2] @ [T0, T1, T2, T3])"
  shows "assign T1 T0 (assign T2 T1 (assign T3 T2
           (assign p1 p0 (assign p2 p1 (assign u1 u0 (assign u2 u1 s)))))) a = s a"
  using assms by (simp add: assign_def)

lemma shifted3:
  "(\<forall>k. 1 \<le> k \<and> k < length [a, b, c] \<longrightarrow> [x, x, y] ! k = [x, y, z] ! (k - 1))"
  by (auto simp: nth_Cons split: nat.splits)

lemma shifted4:
  "(\<forall>k. 1 \<le> k \<and> k < length [a, b, c, d] \<longrightarrow> [x, x, y, z] ! k = [x, y, z, w] ! (k - 1))"
  by (auto simp: nth_Cons split: nat.splits)

text \<open>
  Claim C7. For buffers of three velocity, three pressure and four temperature
  generations, held in pairwise different objects, one call of \<^verbatim>\<open>update_variables\<close>
  returns normally; afterwards slot \<open>k\<close> of every buffer holds what slot \<open>k - 1\<close> held
  before, for every \<open>k \<ge> 1\<close>, slot 0 holds what it held before, and no other object is
  changed. Every statement assigns a slot \<open>k \<ge> 1\<close> from slot \<open>k - 1\<close>, so slot 0 is never
  assigned, and within each buffer the assigned slots come in strictly decreasing order.
\<close>

theorem update_variables_shifts:
  assumes "length u_list = 3" and "length p_list = 3" and "length T_list = 4"
    and "distinct (u_list @ p_list @ T_list)"
  shows "\<exists>s'. update_variables u_list p_list T_list s = Inr s'
      \<and> (\<forall>b \<in> {u_list, p_list, T_list}.
            contents s' b ! 0 = contents s b ! 0
          \<and> (\<forall>k. 1 \<le> k \<and> k < length b \<longrightarrow> contents s' b ! k = contents s b ! (k - 1)))
      \<and> (\<forall>a. a \<notin> set (u_list @ p_list @ T_list) \<longrightarrow> s' a = s a)
      \<and> (\<forall>st \<in> set update_variables_steps. 1 \<le> fst (snd st) \<and> snd (snd st) = fst (snd st) - 1)
      \<and> (\<forall>b. sorted_wrt (>)
            (map (\<lambda>st. fst (snd st)) (filter (\<lambda>st. fst st = b) update_variables_steps)))"
proof -
  obtain u0 u1 u2 where u: "u_list = [u0, u1, u2]" using list3 [OF assms(1)] by blast
  obtain p0 p1 p2 where p: "p_list = [p0, p1, p2]" using list3 [OF assms(2)] by blast
  obtain T0 T1 T2 T3 where T: "T_list = [T0, T1, T2, T3]" using list4 [OF assms(3)] by blast
  have d: "distinct ([u0, u1, u2] @ [p0, p1, p2] @ [T0, T1, T2, T3])"
    using assms(4) by (simp only: u p T)
  define s' where "s' = assign T1 T0 (assign T2 T1 (assign T3 T2
           (assign p1 p0 (assign p2 p1 (assign u1 u0 (assign u2 u1 s))))))"
  have run: "update_variables u_list p_list T_list s = Inr s'"
    unfolding u p T s'_def by (rule update_variables_assigns)
  have cu: "contents s' u_list = [s u0, s u0, s u1]"
    unfolding contents_def u s'_def by (rule rotated_u [OF d])
  have cp: "contents s' p_list = [s p0, s p0, s p1]"
    unfolding contents_def p s'_def by (rule rotated_p [OF d])
  have cT: "contents s' T_list = [s T0, s T0, s T1, s T2]"
    unfolding contents_def T s'_def by (rule rotated_T [OF d])
  have su: "contents s u_list = [s u0, s u1, s u2]" by (simp add: contents_def u)
  have sp: "contents s p_list = [s p0, s p1, s p2]" by (simp add: contents_def p)
  have sT: "contents s T_list = [s T0, s T1, s T2, s T3]" by (simp add: contents_def T)
  have bu: "contents s' u_list ! 0 = contents s u_list ! 0
          \<and> (\<forall>k. 1 \<le> k \<and> k < length u_list \<longrightarrow> contents s' u_list ! k = contents s u_list ! (k - 1))"
    unfolding cu su using shifted3 [of u0 u1 u2] by (simp add: u)
  have bp: "contents s' p_list ! 0 = contents s p_list ! 0
          \<and> (\<forall>k. 1 \<le> k \<and> k < length p_list \<longrightarrow> contents s' p_list ! k = contents s p_list ! (k - 1))"
    unfolding cp sp using shifted3 [of p0 p1 p2] by (simp add: p)
  have bT: "contents s' T_list ! 0 = contents s T_list ! 0
          \<and> (\<forall>k. 1 \<le> k \<and> k < length T_list \<longrightarrow> contents s' T_list ! k = contents s T_list ! (k - 1))"
    unfolding cT sT using shifted4 [of T0 T1 T2 T3] by (simp add: T)
  have other: "\<forall>a. a \<notin> set (u_list @ p_list @ T_list) \<longrightarrow> s' a = s a"
    unfolding u p T s'_def using rotated_other by blast
  have ord: "(\<forall>st \<in> set update_variables_steps. 1 \<le> fst (snd st) \<and> snd (snd st) = fst (snd st) - 1)
      \<and> (\<forall>b. sorted_wrt (>)
            (map (\<lambda>st. fst (snd st)) (filter (\<lambda>st. fst st = b) update_variables_steps)))"
    by (simp add: update_variables_steps_def)
  show ?thesis
    using run bu bp bT other ord by blast
qed


theorem update_variables_shifts_witness:
  "distinct ([0, 1, 2] @ [3, 4, 5] @ [6, 7, 8, 9 :: nat]) \<and>
   (\<exists>s'. update_variables [0, 1, 2] [3, 4, 5] [6, 7, 8, 9] (\<lambda>a. 10 * a) = Inr s'
      \<and> contents s' [0, 1, 2] ! 2 = contents (\<lambda>a. 10 * a) [0, 1, 2] ! 1
      \<and> contents s' [6, 7, 8, 9] ! 3 = contents (\<lambda>a. 10 * a) [6, 7, 8, 9] ! 2
      \<and> contents s' [3, 4, 5] ! 0 = contents (\<lambda>a. 10 * a) [3, 4, 5] ! 0)"
proof -
  have d: "distinct ([0, 1, 2] @ [3, 4, 5] @ [6, 7, 8, 9 :: nat])" by simp
  obtain s' where run: "update_variables [0, 1, 2] [3, 4, 5] [6, 7, 8, 9] (\<lambda>a. 10 * a :: nat) = Inr s'"
    and b: "\<forall>b \<in> {[0, 1, 2], [3, 4, 5], [6, 7, 8, 9]}.
            contents s' b ! 0 = contents (\<lambda>a. 10 * a) b ! 0
          \<and> (\<forall>k. 1 \<le> k \<and> k < length b \<longrightarrow> contents s' b ! k = contents (\<lambda>a. 10 * a) b ! (k - 1))"
    using update_variables_shifts [of "[0, 1, 2]" "[3, 4, 5]" "[6, 7, 8, 9]" "\<lambda>a. 10 * a", OF _ _ _ d] by auto
  have "contents s' [0, 1, 2] ! 2 = contents (\<lambda>a. 10 * a) [0, 1, 2] ! (2 - 1)"
    using b by simp
  moreover have "contents s' [6, 7, 8, 9] ! 3 = contents (\<lambda>a. 10 * a) [6, 7, 8, 9] ! (3 - 1)"
    using b by simp
  moreover have "contents s' [3, 4, 5] ! 0 = contents (\<lambda>a. 10 * a) [3, 4, 5] ! 0"
    using b by simp
  ultimately show ?thesis using d run by (intro conjI exI [of _ s']) simp_all
qed

lemma twice_assigns:
  "rotate_times 2 [u0, u1, u2] [p0, p1, p2] [T0, T1, T2, T3] s =
     Inr (assign T1 T0 (assign T2 T1 (assign T3 T2
           (assign p1 p0 (assign p2 p1 (assign u1 u0 (assign u2 u1
         (assign T1 T0 (assign T2 T1 (assign T3 T2
           (assign p1 p0 (assign p2 p1 (assign u1 u0 (assign u2 u1 s))))))))))))))"
  by (simp add: numeral_2_eq_2 update_variables_assigns)

lemma once_history:
  assumes "distinct ([u0, u1, u2] @ [p0, p1, p2] @ [T0, T1, T2, T3])"
  shows "history_after 1 [u0, u1, u2] [p0, p1, p2] [T0, T1, T2, T3] s =
     Inr ([s u0, s u0, s u1], [s p0, s p0, s p1], [s T0, s T0, s T1, s T2])"
  by (simp add: history_after_def update_variables_assigns contents_def
      rotated_u [OF assms] rotated_p [OF assms] rotated_T [OF assms] del: list.map)

lemma twice_history:
  assumes "distinct ([u0, u1, u2] @ [p0, p1, p2] @ [T0, T1, T2, T3])"
  shows "history_after 2 [u0, u1, u2] [p0, p1, p2] [T0, T1, T2, T3] s =
     Inr ([s u0, s u0, s u0], [s p0, s p0, s p0], [s T0, s T0, s T0, s T1])"
proof -
  let ?s1 = "assign T1 T0 (assign T2 T1 (assign T3 T2
           (assign p1 p0 (assign p2 p1 (assign u1 u0 (assign u2 u1 s))))))"
  have 1: "map ?s1 [u0, u1, u2] = [s u0, s u0, s u1]" by (rule rotated_u [OF assms])
  have 2: "map ?s1 [p0, p1, p2] = [s p0, s p0, s p1]" by (rule rotated_p [OF assms])
  have 3: "map ?s1 [T0, T1, T2, T3] = [s T0, s T0, s T1, s T2]" by (rule rotated_T [OF assms])
  have v: "?s1 u0 = s u0" "?s1 u1 = s u0" "?s1 p0 = s p0" "?s1 p1 = s p0"
    "?s1 T0 = s T0" "?s1 T1 = s T0" "?s1 T2 = s T1"
    using 1 2 3 by simp_all
  show ?thesis
    unfolding history_after_def twice_assigns seq_Inr contents_def
      rotated_u [OF assms, of ?s1] rotated_p [OF assms, of ?s1] rotated_T [OF assms, of ?s1] v
    by (rule refl)
qed

text \<open>
  Claim C8, as stated, for buffers whose objects \<open>0, \<dots>, 9\<close> hold \<open>0, 10, \<dots>, 90\<close>: one
  rotation and two rotations leave different contents.
\<close>

theorem update_variables_twice_differs:
  "history_after 1 [0, 1, 2] [3, 4, 5] [6, 7, 8, 9] (\<lambda>a. 10 * a)
     = Inr ([0, 0, 10], [30, 30, 40], [60, 60, 70, 80 :: nat])
   \<and> history_after 2 [0, 1, 2] [3, 4, 5] [6, 7, 8, 9] (\<lambda>a. 10 * a)
     = Inr ([0, 0, 0], [30, 30, 30], [60, 60, 60, 70 :: nat])"
  using once_history [of 0 1 2 3 4 5 6 7 8 9 "\<lambda>a. 10 * a"]
    twice_history [of 0 1 2 3 4 5 6 7 8 9 "\<lambda>a. 10 * a"]
  by simp

text \<open>
  Claim C8, amended. The rotation is not idempotent. Applied twice with nothing written
  to slot 0 in between, it leaves in slot \<open>k\<close> what slot \<open>k - 2\<close> held at the start for
  \<open>k \<ge> 2\<close> and what slot 0 held in slots 0 and 1: the three-slot buffers hold the
  original slot 0 three times, the four-slot buffer holds it three times followed by the
  original slot 1. The result equals that of one rotation exactly when slots 0 and 1
  of every buffer, and slots 1 and 2 of the temperature buffer, held equal contents.
\<close>

theorem update_variables_twice:
  assumes "length u_list = 3" and "length p_list = 3" and "length T_list = 4"
    and "distinct (u_list @ p_list @ T_list)"
  shows "history_after 2 u_list p_list T_list s =
      Inr ([s (u_list ! 0), s (u_list ! 0), s (u_list ! 0)],
           [s (p_list ! 0), s (p_list ! 0), s (p_list ! 0)],
           [s (T_list ! 0), s (T_list ! 0), s (T_list ! 0), s (T_list ! 1)])
    \<and> (history_after 2 u_list p_list T_list s = history_after 1 u_list p_list T_list s
       \<longleftrightarrow> s (u_list ! 0) = s (u_list ! 1) \<and> s (p_list ! 0) = s (p_list ! 1)
         \<and> s (T_list ! 0) = s (T_list ! 1) \<and> s (T_list ! 1) = s (T_list ! 2))"
proof -
  obtain u0 u1 u2 where u: "u_list = [u0, u1, u2]" using list3 [OF assms(1)] by blast
  obtain p0 p1 p2 where p: "p_list = [p0, p1, p2]" using list3 [OF assms(2)] by blast
  obtain T0 T1 T2 T3 where T: "T_list = [T0, T1, T2, T3]" using list4 [OF assms(3)] by blast
  have d: "distinct ([u0, u1, u2] @ [p0, p1, p2] @ [T0, T1, T2, T3])"
    using assms(4) by (simp only: u p T)
  show ?thesis
    unfolding u p T once_history [OF d] twice_history [OF d]
    by auto
qed

theorem update_variables_twice_witness:
  "history_after 2 [10, 11, 12] [13, 14, 15] [16, 17, 18, 19] (\<lambda>a. a + 1)
     = Inr ([11, 11, 11], [14, 14, 14], [17, 17, 17, 18 :: nat])"
  using update_variables_twice [of "[10, 11, 12]" "[13, 14, 15]" "[16, 17, 18, 19]" "\<lambda>a. a + 1"]
  by simp

section \<open>Properties of rounding down\<close>

lemma pow2_pos: "0 < pow2 e"
  by (simp add: pow2_def)

lemma pow2_powr: "pow2 e = 2 powr (of_int e)"
  by (simp add: pow2_def powr_real_of_int field_simps)

lemma binade_unique:
  assumes "pow2 e \<le> \<bar>r\<bar>" and "\<bar>r\<bar> < pow2 (e + 1)" and "- 1022 \<le> e"
  shows "binade r = e"
proof -
  have pos: "0 < \<bar>r\<bar>"
    using assms(1) pow2_pos [of e] by linarith
  have "\<lfloor>log 2 \<bar>r\<bar>\<rfloor> = e"
    using assms(1,2) pos by (simp add: floor_log_eq_powr_iff pow2_powr)
  then show ?thesis
    using assms(3) by (simp add: binade_def)
qed

lemma binary64_in_binade:
  assumes "pow2 e \<le> \<bar>r\<bar>" and "\<bar>r\<bar> < pow2 (e + 1)" and "- 1022 \<le> e"
  shows "binary64 r = of_int (round_half_even (r / pow2 (e - 52))) * pow2 (e - 52)"
  by (simp add: binary64_def binade_unique [OF assms])

text \<open>
  The rounding function on known values: the floats nearest to \<open>1/10\<close> and to
  \<open>10\<^sup>2\<^sup>3\<close>, and the three roundings that \<^verbatim>\<open>round_decimals_down(1.9999799999999999, 5)\<close>
  performs.
\<close>

lemma binary64_tenth: "binary64 (1 / 10) = 3602879701896397 / 2 ^ 55"
  by (subst binary64_in_binade [where e = "- 4"])
     (simp_all add: pow2_def round_half_even_def Let_def)

lemma binary64_1e23: "binary64 (10 ^ 23) = 99999999999999991611392"
  by (subst binary64_in_binade [where e = 76])
     (simp_all add: pow2_def round_half_even_def Let_def)

lemma binary64_1e5: "binary64 100000 = 100000"
  by (subst binary64_in_binade [where e = 16])
     (simp_all add: pow2_def round_half_even_def Let_def)

lemma binary64_product:
  "binary64 (9007109182748444 / 2 ^ 52 * 100000) = 199998"
  by (subst binary64_in_binade [where e = 17])
     (simp_all add: pow2_def round_half_even_def Let_def)

lemma binary64_quotient:
  "binary64 (199998 / 100000) = 9007109182748445 / 2 ^ 52"
  by (subst binary64_in_binade [where e = 0])
     (simp_all add: pow2_def round_half_even_def Let_def)


text \<open>Rounding moves a real by at most half the spacing of its binade.\<close>

lemma round_half_even_error: "\<bar>of_int (round_half_even r) - r\<bar> \<le> 1 / 2"
proof -
  have "of_int \<lfloor>r\<rfloor> \<le> r" and "r < of_int \<lfloor>r\<rfloor> + 1"
    by linarith+
  then show ?thesis
    by (auto simp: round_half_even_def Let_def)
qed

lemma spacing_le:
  assumes "r \<noteq> 0"
  shows "pow2 (binade r - 52) \<le> \<bar>r\<bar> + 1"
proof -
  define L where "L = \<lfloor>log 2 \<bar>r\<bar>\<rfloor>"
  have fl: "of_int L \<le> log 2 \<bar>r\<bar>"
    unfolding L_def by (rule of_int_floor_le)
  have bin: "binade r = max L (- 1022)"
    by (simp add: binade_def L_def)
  have e: "of_int (binade r - 52) \<le> max (log 2 \<bar>r\<bar>) 0"
  proof (cases "- 1022 \<le> L")
    case True
    then have "real_of_int (binade r - 52) = of_int L - 52"
      by (simp add: bin)
    then have "real_of_int (binade r - 52) \<le> log 2 \<bar>r\<bar>"
      using fl by linarith
    then show ?thesis
      by (simp only: le_max_iff_disj) blast
  next
    case False
    then have "binade r = - 1022"
      by (simp add: bin)
    then have "real_of_int (binade r - 52) \<le> 0"
      by simp
    then show ?thesis
      by (simp only: le_max_iff_disj) blast
  qed
  have "pow2 (binade r - 52) \<le> 2 powr (max (log 2 \<bar>r\<bar>) 0)"
    unfolding pow2_powr using e by (simp only: powr_le_cancel_iff)
  also have "\<dots> \<le> \<bar>r\<bar> + 1"
  proof -
    have "2 powr (log 2 \<bar>r\<bar>) = \<bar>r\<bar>"
      using assms by simp
    then show ?thesis
      by (cases "log 2 \<bar>r\<bar> \<le> 0") (simp_all add: max_def)
  qed
  finally show ?thesis .
qed

lemma binary64_zero: "binary64 0 = 0"
  by (simp add: binary64_def round_half_even_def)

lemma binary64_le: "\<bar>binary64 r\<bar> \<le> 2 * \<bar>r\<bar> + 1"
proof (cases "r = 0")
  case True
  then show ?thesis
    by (simp add: binary64_zero)
next
  case False
  let ?u = "pow2 (binade r - 52)"
  have u: "0 < ?u"
    by (rule pow2_pos)
  have "binary64 r - r = (of_int (round_half_even (r / ?u)) - r / ?u) * ?u"
    using u by (simp add: binary64_def algebra_simps)
  then have "\<bar>binary64 r - r\<bar> = \<bar>of_int (round_half_even (r / ?u)) - r / ?u\<bar> * ?u"
    using u by (simp add: abs_mult)
  also have "\<dots> \<le> 1 / 2 * ?u"
    using u round_half_even_error [of "r / ?u"] by (intro mult_right_mono) simp_all
  also have "\<dots> \<le> 1 / 2 * (\<bar>r\<bar> + 1)"
    using spacing_le [OF False] by simp
  finally have "\<bar>binary64 r - r\<bar> \<le> 1 / 2 * (\<bar>r\<bar> + 1)" .
  then show ?thesis
    by (simp add: abs_if split: if_splits)
qed


lemma float_bound_gt_1: "1 < float_bound"
  by (simp add: float_bound_def)

lemma pow309: "float_bound \<le> 10 ^ 309"
  by (simp add: float_bound_def)

text \<open>
  Claim C9, as stated, at \<^verbatim>\<open>round_decimals_down(1.0, 309)\<close>: the decimal count is a
  non-negative integer, and the call raises, since \<^verbatim>\<open>10 ** 309\<close> is too large to be
  converted to a float in \<^verbatim>\<open>number * factor\<close>.
\<close>

theorem round_decimals_down_overflow: "round_decimals_down (Finite 1) (PyInt 309) = Inl OverflowError"
  using pow309 by (simp add: round_decimals_down_def int_to_float_def)

lemma abs_floor_le: "\<bar>of_int \<lfloor>y :: real\<rfloor>\<bar> \<le> \<bar>y\<bar> + (1 :: real)"
proof -
  have "of_int \<lfloor>y\<rfloor> \<le> y" and "y < of_int \<lfloor>y\<rfloor> + 1"
    by linarith+
  then show ?thesis by linarith
qed

lemma round_decimals_down_scaled:
  assumes "isinstance_int decimals" and "0 < int_value decimals"
    and "10 ^ nat (int_value decimals) < float_bound"
    and "\<bar>a\<bar> * (2 * 10 ^ nat (int_value decimals) + 1) < float_bound"
  shows "\<exists>v. round_decimals_down (Finite a) decimals = Inr (PyFloat (Finite v))"
proof -
  define n where "n = nat (int_value decimals)"
  define f where "f = binary64 (of_int (10 ^ n))"
  define p where "p = a * f"
  define q where "q = \<lfloor>binary64 p\<rfloor>"
  have n: "0 < n"
    using assms(2) by (simp add: n_def)
  have f10: "(10::real) \<le> 10 ^ n"
    using n power_increasing [of 1 n "10::real"] by simp
  have conv: "int_to_float (10 ^ n) = Inr f"
    using assms(3) by (simp add: int_to_float_def n_def f_def)
  have "\<bar>f\<bar> \<le> 2 * 10 ^ n + 1"
    using binary64_le [of "of_int (10 ^ n)"] by (simp add: f_def)
  then have "\<bar>p\<bar> \<le> \<bar>a\<bar> * (2 * 10 ^ n + 1)"
    unfolding p_def abs_mult by (intro mult_left_mono) simp_all
  then have prod: "\<bar>p\<bar> < float_bound"
    using assms(4) by (simp add: n_def)
  then have mul: "float_mul (Finite a) f = Finite (binary64 p)"
    by (simp add: float_of_real_def p_def abs_less_iff not_le)
  have "\<bar>of_int q\<bar> \<le> \<bar>binary64 p\<bar> + (1::real)"
    unfolding q_def by (rule abs_floor_le)
  also have "\<dots> \<le> 2 * \<bar>p\<bar> + 2"
    using binary64_le [of p] by simp
  finally have qb: "\<bar>of_int q :: real\<bar> < 2 * float_bound + 2"
    using prod by simp
  have "\<bar>of_int q / 10 ^ n :: real\<bar> = \<bar>of_int q\<bar> / 10 ^ n"
    by simp
  also have "\<dots> \<le> \<bar>of_int q\<bar> / 10"
    using f10 by (intro frac_le) auto
  also have "\<dots> < float_bound"
    using qb float_bound_gt_1 by simp
  finally have quot: "int_truediv q (10 ^ n) = Inr (binary64 (of_int q / 10 ^ n))"
    by (simp add: int_truediv_def)
  have "round_decimals_down (Finite a) decimals
      = Inr (PyFloat (Finite (binary64 (of_int q / 10 ^ n))))"
    using assms(1,2) conv mul quot
    by (simp add: round_decimals_down_def n_def [symmetric] Let_def p_def [symmetric]
        q_def [symmetric])
  then show ?thesis
    by blast
qed

text \<open>
  Claim C9, amended. \<^verbatim>\<open>round_decimals_down\<close> raises a type error for every decimal
  count that is not an instance of \<^verbatim>\<open>int\<close> and a value error for every negative
  integer count. For the count 0 and a finite number it returns the floor of the number.
  For a positive integer count and a finite number it returns a float whenever
  \<open>10 ^ decimals\<close> and \<open>\<bar>number\<bar> * (2 * 10 ^ decimals + 1)\<close> are inside the binary64
  range.
\<close>

theorem round_decimals_down_raises:
  "(\<not> isinstance_int decimals \<longrightarrow> round_decimals_down number decimals = Inl TypeError)
 \<and> (isinstance_int decimals \<and> int_value decimals < 0 \<longrightarrow>
      round_decimals_down number decimals = Inl ValueError)
 \<and> (isinstance_int decimals \<and> int_value decimals = 0 \<longrightarrow>
      round_decimals_down (Finite a) decimals = Inr (PyInt \<lfloor>a\<rfloor>))
 \<and> (isinstance_int decimals \<and> 0 < int_value decimals
      \<and> 10 ^ nat (int_value decimals) < float_bound
      \<and> \<bar>a\<bar> * (2 * 10 ^ nat (int_value decimals) + 1) < float_bound \<longrightarrow>
      (\<exists>v. round_decimals_down (Finite a) decimals = Inr (PyFloat (Finite v))))"
proof (intro conjI impI)
  assume "\<not> isinstance_int decimals"
  then show "round_decimals_down number decimals = Inl TypeError"
    by (simp add: round_decimals_down_def)
next
  assume "isinstance_int decimals \<and> int_value decimals < 0"
  then show "round_decimals_down number decimals = Inl ValueError"
    by (simp add: round_decimals_down_def)
next
  assume "isinstance_int decimals \<and> int_value decimals = 0"
  then show "round_decimals_down (Finite a) decimals = Inr (PyInt \<lfloor>a\<rfloor>)"
    by (simp add: round_decimals_down_def)
next
  assume "isinstance_int decimals \<and> 0 < int_value decimals
      \<and> 10 ^ nat (int_value decimals) < float_bound
      \<and> \<bar>a\<bar> * (2 * 10 ^ nat (int_value decimals) + 1) < float_bound"
  then show "\<exists>v. round_decimals_down (Finite a) decimals = Inr (PyFloat (Finite v))"
    using round_decimals_down_scaled by blast
qed

lemma pow5: "(10::real) ^ 5 < float_bound" "\<bar>1 / 4 :: real\<bar> * (2 * 10 ^ 5 + 1) < float_bound"
  by (simp_all add: float_bound_def)

theorem round_decimals_down_raises_witness:
  "round_decimals_down (Finite (1 / 4)) (PyFloat (Finite 5)) = Inl TypeError
 \<and> round_decimals_down (Finite (1 / 4)) (PyInt (- 1)) = Inl ValueError
 \<and> round_decimals_down (Finite (9 / 4)) (PyInt 0) = Inr (PyInt 2)
 \<and> (\<exists>v. round_decimals_down (Finite (1 / 4)) (PyInt 5) = Inr (PyFloat (Finite v)))"
  using round_decimals_down_raises [of "PyFloat (Finite 5)" "Finite (1 / 4)"]
    round_decimals_down_raises [of "PyInt (- 1)" "Finite (1 / 4)"]
    round_decimals_down_raises [of "PyInt 0" _ "9 / 4"]
    round_decimals_down_raises [of "PyInt 5" _ "1 / 4"] pow5
  by simp

text \<open>
  Claim C6 on the code. The float written \<^verbatim>\<open>1.9999799999999999\<close> is
  \<open>9007109182748444 / 2\<^sup>5\<^sup>2\<close>. Its product with \<open>10\<^sup>5\<close> lies less than half a spacing below
  199998 and is rounded to 199998 before the floor is taken, and the quotient
  \<open>199998 / 100000\<close> is rounded to the next float, \<open>9007109182748445 / 2\<^sup>5\<^sup>2\<close>:
  \<^verbatim>\<open>round_decimals_down\<close> returns a value above its argument.
\<close>

theorem round_decimals_down_rounds_up:
  "round_decimals_down (Finite (9007109182748444 / 2 ^ 52)) (PyInt 5)
     = Inr (PyFloat (Finite (9007109182748445 / 2 ^ 52)))
   \<and> (9007109182748444 / 2 ^ 52 :: real) < 9007109182748445 / 2 ^ 52"
proof -
  define x0 :: real where "x0 = 9007109182748444 / 2 ^ 52"
  define y0 :: real where "y0 = 9007109182748445 / 2 ^ 52"
  have fb: "(199998::real) < float_bound" "(100000::real) < float_bound"
    by (simp_all add: float_bound_def)
  have f: "int_to_float 100000 = Inr 100000"
    using fb by (simp add: int_to_float_def binary64_1e5)
  have "binary64 (x0 * 100000) = 199998"
    unfolding x0_def by (rule binary64_product)
  moreover have "x0 * 100000 < float_bound" "- float_bound < x0 * 100000"
    using fb by (simp_all add: x0_def)
  ultimately have m: "float_of_real (x0 * 100000) = Finite 199998"
    by (simp add: float_of_real_def not_le)
  have "binary64 (199998 / 100000) = y0"
    unfolding y0_def by (rule binary64_quotient)
  moreover have "\<bar>199998 / 100000 :: real\<bar> < float_bound"
    using fb by simp
  ultimately have d: "int_truediv 199998 100000 = Inr y0"
    by (simp add: int_truediv_def not_le)
  have "round_decimals_down (Finite x0) (PyInt 5) = Inr (PyFloat (Finite y0))"
    by (simp add: round_decimals_down_def f m d Let_def)
  moreover have "x0 < y0"
    by (simp add: x0_def y0_def)
  ultimately show ?thesis
    unfolding x0_def y0_def by blast
qed

text \<open>
  In exact arithmetic the scaled floor lies below the number, by less than one unit of
  the last kept decimal place; the roundings of the product and of the quotient are
  what the function loses against this.
\<close>

lemma scaled_floor_bounds:
  fixes a :: real
  shows "of_int \<lfloor>a * 10 ^ n\<rfloor> / 10 ^ n \<le> a \<and> a - of_int \<lfloor>a * 10 ^ n\<rfloor> / 10 ^ n < 1 / 10 ^ n"
proof -
  define p where "p = (10::real) ^ n"
  have p: "0 < p"
    by (simp add: p_def)
  have 1: "of_int \<lfloor>a * p\<rfloor> \<le> a * p" and 2: "a * p < of_int \<lfloor>a * p\<rfloor> + 1"
    by linarith+
  have lower: "of_int \<lfloor>a * p\<rfloor> / p \<le> a"
    using 1 p by (simp add: pos_divide_le_eq)
  have "a < (of_int \<lfloor>a * p\<rfloor> + 1) / p"
    using 2 p by (simp add: pos_less_divide_eq)
  then have "a - of_int \<lfloor>a * p\<rfloor> / p < 1 / p"
    by (simp add: add_divide_distrib)
  with lower show ?thesis
    by (simp add: p_def)
qed


section \<open>Properties of the null-space vector\<close>

lemma length_dofmap_set [simp]: "length (dofmap_set Q v c) = length v"
  unfolding dofmap_set_def by (induction Q arbitrary: v) simp_all

lemma nth_dofmap_set:
  "i < length v \<Longrightarrow> dofmap_set Q v c ! i = (if i \<in> set Q then c else v ! i)"
  unfolding dofmap_set_def
proof (induction Q arbitrary: v)
  case Nil
  show ?case by simp
next
  case (Cons d Q)
  then show ?case by (auto simp: nth_list_update)
qed

lemma sum_squares_nonneg: "0 \<le> sum_list (map (\<lambda>a. a * a) (w :: real list))"
  by (induction w) simp_all

lemma sum_squares_pos:
  "i < length w \<Longrightarrow> w ! i \<noteq> 0 \<Longrightarrow> 0 < sum_list (map (\<lambda>a. a * a) (w :: real list))"
proof (induction w arbitrary: i)
  case Nil
  then show ?case by simp
next
  case (Cons b w)
  show ?case
  proof (cases i)
    case 0
    then have "b \<noteq> 0" using Cons.prems by simp
    then have "0 < b * b" by (auto simp: zero_less_mult_iff)
    then show ?thesis using sum_squares_nonneg [of w] by simp
  next
    case (Suc j)
    then have "0 < sum_list (map (\<lambda>a. a * a) w)" using Cons by simp
    moreover have "0 \<le> b * b" by simp
    ultimately have "0 < b * b + sum_list (map (\<lambda>a. a * a) w)" by (rule add_nonneg_pos [rotated])
    then show ?thesis by simp
  qed
qed

lemma sum_squares_scaled:
  "sum_list (map (\<lambda>a. a * a) (map (\<lambda>a. a * c) w)) = c * c * sum_list (map (\<lambda>a. a * a) (w :: real list))"
  by (induction w) (simp_all add: algebra_simps)

lemma norm_l2_normalized:
  assumes "norm_l2 w \<noteq> 0"
  shows "norm_l2 (map (\<lambda>a. a * (1 / norm_l2 w)) w) = 1"
proof -
  let ?S = "sum_list (map (\<lambda>a. a * a) w)"
  have S: "0 < ?S"
    using assms sum_squares_nonneg [of w] by (cases "?S = 0") (simp_all add: norm_l2_def)
  have "norm_l2 (map (\<lambda>a. a * (1 / norm_l2 w)) w) = sqrt ((1 / sqrt ?S) * (1 / sqrt ?S) * ?S)"
    by (simp only: norm_l2_def sum_squares_scaled)
  also have "(1 / sqrt ?S) * (1 / sqrt ?S) * ?S = 1"
    using S by (simp add: field_simps)
  finally show ?thesis by simp
qed

lemma norm_l2_owned:
  assumes "d \<in> set Q" and "d < length v"
  shows "norm_l2 (dofmap_set Q v 1) \<noteq> 0"
proof -
  have "dofmap_set Q v 1 ! d \<noteq> 0"
    using assms by (simp add: nth_dofmap_set)
  then have "0 < sum_list (map (\<lambda>a. a * a) (dofmap_set Q v 1))"
    using sum_squares_pos [of d "dofmap_set Q v 1"] assms(2) by simp
  then show ?thesis by (simp add: norm_l2_def)
qed

text \<open>
  Claim C1, amended. The vector starts as a copy of the reference vector, so an entry
  that the pressure space does not own keeps the reference value. When the norm of the
  vector with the owned entries set to 1 is zero, \<^verbatim>\<open>attach_nullspace\<close> fails with a
  division by zero; the norm is not zero as soon as the pressure space owns an entry of
  the vector. Otherwise the basis vector has the value \<open>1 / norm\<close> on every entry the
  pressure space owns, the value \<open>reference / norm\<close> on every other entry, which is 0
  exactly where the reference vector is 0, and its Euclidean norm is 1 in exact
  arithmetic; the basis is attached to the operator and kept in its attribute.
\<close>

theorem attach_nullspace_basis:
  "(norm_l2 (dofmap_set Q x_vector 1) = 0 \<longrightarrow>
      attach_nullspace Ap x_vector Q = Inl ZeroDivisionError)
 \<and> ((\<exists>d \<in> set Q. d < length x_vector) \<longrightarrow> norm_l2 (dofmap_set Q x_vector 1) \<noteq> 0)
 \<and> (norm_l2 (dofmap_set Q x_vector 1) \<noteq> 0 \<longrightarrow>
      (\<exists>Aa v. attach_nullspace Ap x_vector Q = Inr (Aa, [v])
         \<and> attached_nullspace Aa = Some [v] \<and> null_space Aa = Some [v]
         \<and> length v = length x_vector
         \<and> (\<forall>i < length x_vector. v ! i =
               (if i \<in> set Q then 1 else x_vector ! i) / norm_l2 (dofmap_set Q x_vector 1))
         \<and> norm_l2 v = 1))"
proof (intro conjI impI)
  assume "norm_l2 (dofmap_set Q x_vector 1) = 0"
  then show "attach_nullspace Ap x_vector Q = Inl ZeroDivisionError"
    by (simp add: attach_nullspace_def Vector_def float_truediv_def)
next
  assume "\<exists>d \<in> set Q. d < length x_vector"
  then show "norm_l2 (dofmap_set Q x_vector 1) \<noteq> 0"
    using norm_l2_owned by blast
next
  let ?w = "dofmap_set Q x_vector 1"
  let ?v = "map (\<lambda>a. a * (1 / norm_l2 ?w)) ?w"
  let ?Aa = "Ap\<lparr>attached_nullspace := Some [?v], null_space := Some [?v]\<rparr>"
  assume nz: "norm_l2 ?w \<noteq> 0"
  have run: "attach_nullspace Ap x_vector Q = Inr (?Aa, [?v])"
    using nz by (simp add: attach_nullspace_def Vector_def float_truediv_def Let_def)
  have entries: "\<forall>i < length x_vector. ?v ! i =
      (if i \<in> set Q then 1 else x_vector ! i) / norm_l2 ?w"
    by (simp add: nth_dofmap_set)
  have "norm_l2 ?v = 1"
    by (rule norm_l2_normalized [OF nz])
  with run entries
  show "\<exists>Aa v. attach_nullspace Ap x_vector Q = Inr (Aa, [v])
         \<and> attached_nullspace Aa = Some [v] \<and> null_space Aa = Some [v]
         \<and> length v = length x_vector
         \<and> (\<forall>i < length x_vector. v ! i =
               (if i \<in> set Q then 1 else x_vector ! i) / norm_l2 (dofmap_set Q x_vector 1))
         \<and> norm_l2 v = 1"
    by (intro exI [of _ ?Aa] exI [of _ ?v]) simp
qed

lemma sqrt_25_16: "sqrt (25 / 16) = 5 / 4"
  by (rule real_sqrt_unique) (simp_all add: power2_eq_square)

text \<open>
  Claim C1, as stated, for the reference vector \<open>(3/4, 0)\<close> and a pressure space that
  owns entry 1 only: entry 0, which the pressure space does not own, ends as \<open>3/5\<close>,
  not as 0.
\<close>

theorem attach_nullspace_keeps_reference:
  "attach_nullspace \<lparr>attached_nullspace = None, null_space = None\<rparr> [3 / 4, 0] [1]
     = Inr (\<lparr>attached_nullspace = Some [[3 / 5, 4 / 5]], null_space = Some [[3 / 5, 4 / 5]]\<rparr>,
            [[3 / 5, 4 / 5]])"
  by (simp add: attach_nullspace_def Vector_def dofmap_set_def norm_l2_def float_truediv_def
      sqrt_25_16 Let_def)

theorem attach_nullspace_basis_witness:
  "attach_nullspace \<lparr>attached_nullspace = None, null_space = None\<rparr> [0, 0] [] = Inl ZeroDivisionError
 \<and> (\<exists>Aa v. attach_nullspace \<lparr>attached_nullspace = None, null_space = None\<rparr> [0, 0] [1] = Inr (Aa, [v])
       \<and> v ! 0 = 0 \<and> v ! 1 = 1 \<and> norm_l2 v = 1)"
proof -
  have n0: "norm_l2 (dofmap_set [] [0, 0] 1) = 0"
    by (simp add: dofmap_set_def norm_l2_def)
  have n1: "norm_l2 (dofmap_set [1] [0, 0] 1) = 1"
    by (simp add: dofmap_set_def norm_l2_def)
  have a: "attach_nullspace \<lparr>attached_nullspace = None, null_space = None\<rparr> [0, 0] [] = Inl ZeroDivisionError"
    using attach_nullspace_basis [of "[]" "[0, 0]" "\<lparr>attached_nullspace = None, null_space = None\<rparr>"] n0 by simp
  obtain Aa v where r: "attach_nullspace \<lparr>attached_nullspace = None, null_space = None\<rparr> [0, 0] [1] = Inr (Aa, [v])"
    and e: "\<forall>i < length [0, 0 :: real]. v ! i = (if i \<in> set [1] then 1 else [0, 0] ! i) / norm_l2 (dofmap_set [1] [0, 0] 1)"
    and n: "norm_l2 v = 1"
    using attach_nullspace_basis [of "[1]" "[0, 0]" "\<lparr>attached_nullspace = None, null_space = None\<rparr>"] n1 by auto
  have "v ! 0 = 0" using e n1 by simp
  moreover have "v ! 1 = 1" using e n1 by simp
  ultimately show ?thesis using a r n by blast
qed

section \<open>Properties of the Courant and flow-scale estimates\<close>

lemma np_max_Max: "xs \<noteq> [] \<Longrightarrow> np_max xs = Inr (Max (set xs))"
  by (cases xs) (simp_all add: Max.set_eq_fold del: set_simps)

lemma map2_same:
  "map2 f (map g xs) (map h xs) = map (\<lambda>a. f (g a) (h a)) xs"
  by (induction xs) simp_all

lemma DENO_loop_result:
  assumes "0 < n"
  shows "DENO_loop (map h [0..<n]) n us (dn, map g [0..<n]) =
     Inr (dn + (\<Sum>ui\<leftarrow>us. Max ((\<lambda>v. \<bar>ui v / h v\<bar>) ` {..<n})),
          map (\<lambda>v. g v + (\<Sum>ui\<leftarrow>us. ui v * ui v)) [0..<n])"
proof (induction us arbitrary: dn g)
  case Nil
  show ?case by simp
next
  case (Cons ui us)
  have ne: "map abs (map2 (/) (map ui [0..<n]) (map h [0..<n])) \<noteq> []"
    using assms by simp
  have m: "np_max (map abs (map2 (/) (map ui [0..<n]) (map h [0..<n])))
      = Inr (Max ((\<lambda>v. \<bar>ui v / h v\<bar>) ` {..<n}))"
    unfolding np_max_Max [OF ne]
    by (simp add: map2_same image_image atLeast0LessThan o_def)
  have st: "map2 (+) (map g [0..<n]) (map (\<lambda>a. a * a) (map ui [0..<n]))
      = map (\<lambda>v. g v + ui v * ui v) [0..<n]"
    by (simp add: map2_same o_def)
  have "DENO_loop (map h [0..<n]) n (ui # us) (dn, map g [0..<n]) =
      DENO_loop (map h [0..<n]) n us
        (dn + Max ((\<lambda>v. \<bar>ui v / h v\<bar>) ` {..<n}), map (\<lambda>v. g v + ui v * ui v) [0..<n])"
    by (simp only: DENO_loop.simps Let_def compute_vertex_values_def m seq_Inr fst_conv snd_conv st)
  also have "\<dots> = Inr (dn + Max ((\<lambda>v. \<bar>ui v / h v\<bar>) ` {..<n})
        + (\<Sum>ui\<leftarrow>us. Max ((\<lambda>v. \<bar>ui v / h v\<bar>) ` {..<n})),
      map (\<lambda>v. g v + ui v * ui v + (\<Sum>ui\<leftarrow>us. ui v * ui v)) [0..<n])"
    by (rule Cons.IH)
  finally show ?case
    by (simp add: algebra_simps)
qed


lemma DENO_local_result:
  assumes "0 < num_vertices p"
  shows "DENO_local p =
     Inr ((\<Sum>ui\<leftarrow>u_sub p. Max ((\<lambda>v. \<bar>ui v / h_f_X p v\<bar>) ` {..<num_vertices p})),
          Max ((\<lambda>v. sqrt (\<Sum>ui\<leftarrow>u_sub p. ui v * ui v) * h_f_X p v) ` {..<num_vertices p}))"
proof -
  let ?n = "num_vertices p"
  have z: "replicate (length (map (h_f_X p) [0..<?n])) (0::real) = map (\<lambda>v. 0) [0..<?n]"
    by (simp add: map_replicate_const)
  have ne: "map2 (*) (map sqrt (map (\<lambda>v. \<Sum>ui\<leftarrow>u_sub p. ui v * ui v) [0..<?n]))
              (map (h_f_X p) [0..<?n]) \<noteq> []"
    using assms by simp
  have mx: "np_max (map2 (*) (map sqrt (map (\<lambda>v. \<Sum>ui\<leftarrow>u_sub p. ui v * ui v) [0..<?n]))
              (map (h_f_X p) [0..<?n]))
      = Inr (Max ((\<lambda>v. sqrt (\<Sum>ui\<leftarrow>u_sub p. ui v * ui v) * h_f_X p v) ` {..<?n}))"
    unfolding np_max_Max [OF ne]
    by (simp add: map2_same image_image atLeast0LessThan o_def)
  show ?thesis
    by (simp only: DENO_local_def Let_def compute_vertex_values_def z
        DENO_loop_result [OF assms] seq_Inr fst_conv snd_conv mx add_0)
qed

lemma collect_all_Inr:
  "\<forall>a \<in> set as. f a = Inr (g a) \<Longrightarrow> collect (map f as) = Inr (map g as)"
  by (induction as) simp_all

lemma DENO_reduces:
  assumes "\<forall>p \<in> set ps. DENO_local p = Inr (loc p)"
  shows "DENO Mpi ps =
     Inr (Max_reduce Mpi (map (\<lambda>p. fst (loc p)) ps), Max_reduce Mpi (map (\<lambda>p. snd (loc p)) ps))"
  by (simp add: DENO_def collect_all_Inr [OF assms] o_def)

text \<open>
  Claim C2. For one or more processes, each with at least one vertex and positive
  length scales, the first result of \<^verbatim>\<open>DENO\<close> is the maximum over the processes of the
  sum over the velocity components of the maximum over the vertices of \<open>\<bar>u_i\<bar> / h\<close>, and
  the second is the maximum over the processes of the maximum over the vertices of
  \<open>sqrt (\<Sum>i. u_i\<^sup>2) * h\<close>. Both reductions go through \<^verbatim>\<open>Mpi.Max\<close>: the result does not
  change when the sum reduction of the facade is replaced by anything else.
\<close>

theorem DENO_estimates:
  assumes "ps \<noteq> []"
    and "\<forall>p \<in> set ps. 0 < num_vertices p \<and> (\<forall>v < num_vertices p. 0 < h_f_X p v)"
  shows "DENO Mpi_facade ps =
     Inr (Max ((\<lambda>p. \<Sum>ui\<leftarrow>u_sub p. Max ((\<lambda>v. \<bar>ui v\<bar> / h_f_X p v) ` {..<num_vertices p})) ` set ps),
          Max ((\<lambda>p. Max ((\<lambda>v. sqrt (\<Sum>ui\<leftarrow>u_sub p. (ui v)\<^sup>2) * h_f_X p v)
                              ` {..<num_vertices p})) ` set ps))
    \<and> DENO (Mpi\<lparr>Sum_reduce := r\<rparr>) ps = DENO Mpi ps"
proof -
  let ?loc = "\<lambda>p. ((\<Sum>ui\<leftarrow>u_sub p. Max ((\<lambda>v. \<bar>ui v\<bar> / h_f_X p v) ` {..<num_vertices p})),
          Max ((\<lambda>v. sqrt (\<Sum>ui\<leftarrow>u_sub p. (ui v)\<^sup>2) * h_f_X p v) ` {..<num_vertices p}))"
  have loc: "\<forall>p \<in> set ps. DENO_local p = Inr (?loc p)"
  proof
    fix p assume p: "p \<in> set ps"
    then have n: "0 < num_vertices p" and h: "\<forall>v < num_vertices p. 0 < h_f_X p v"
      using assms(2) by auto
    have "(\<lambda>v. \<bar>ui v / h_f_X p v\<bar>) ` {..<num_vertices p}
        = (\<lambda>v. \<bar>ui v\<bar> / h_f_X p v) ` {..<num_vertices p}" for ui
      using h by (intro image_cong) auto
    then show "DENO_local p = Inr (?loc p)"
      by (simp add: DENO_local_result [OF n] power2_eq_square)
  qed
  have 1: "DENO Mpi_facade ps =
     Inr (Max ((\<lambda>p. fst (?loc p)) ` set ps), Max ((\<lambda>p. snd (?loc p)) ` set ps))"
    unfolding DENO_reduces [OF loc] by (simp add: Mpi_facade_def)
  have 2: "DENO (Mpi\<lparr>Sum_reduce := r\<rparr>) ps = DENO Mpi ps"
    by (simp add: DENO_def)
  show ?thesis using 1 2 by simp
qed


lemma sqrt_25: "sqrt 25 = 5"
  by (rule real_sqrt_unique) simp_all

lemma sqrt_36: "sqrt 36 = 6"
  by (rule real_sqrt_unique) simp_all

text \<open>
  Two processes: one vertex with velocity \<open>(3, -4)\<close> and length 2, and two vertices with
  velocities \<open>(0, 0)\<close> and \<open>(6, 0)\<close> and length 1. The local pairs are \<open>(7/2, 10)\<close> and
  \<open>(6, 6)\<close>.
\<close>

lemma DENO_example:
  "DENO Mpi_facade [\<lparr>num_vertices = 1, u_sub = [\<lambda>v. 3, \<lambda>v. - 4], h_f_X = (\<lambda>v. 2)\<rparr>, \<lparr>num_vertices = 2, u_sub = [\<lambda>v. if v = 0 then 0 else 6, \<lambda>v. 0], h_f_X = (\<lambda>v. 1)\<rparr>] = Inr (6, 10)"
  by (simp add: DENO_def DENO_local_def compute_vertex_values_def Mpi_facade_def
      sqrt_25 sqrt_36 numeral_2_eq_2 Let_def)

theorem DENO_estimates_witness:
  "DENO Mpi_facade [\<lparr>num_vertices = 1, u_sub = [\<lambda>v. 3, \<lambda>v. - 4], h_f_X = (\<lambda>v. 2)\<rparr>, \<lparr>num_vertices = 2, u_sub = [\<lambda>v. if v = 0 then 0 else 6, \<lambda>v. 0], h_f_X = (\<lambda>v. 1)\<rparr>] =
     Inr (Max ((\<lambda>p. \<Sum>ui\<leftarrow>u_sub p. Max ((\<lambda>v. \<bar>ui v\<bar> / h_f_X p v) ` {..<num_vertices p}))
               ` set [\<lparr>num_vertices = 1, u_sub = [\<lambda>v. 3, \<lambda>v. - 4], h_f_X = (\<lambda>v. 2)\<rparr>, \<lparr>num_vertices = 2, u_sub = [\<lambda>v. if v = 0 then 0 else 6, \<lambda>v. 0], h_f_X = (\<lambda>v. 1)\<rparr>]),
          Max ((\<lambda>p. Max ((\<lambda>v. sqrt (\<Sum>ui\<leftarrow>u_sub p. (ui v)\<^sup>2) * h_f_X p v)
                              ` {..<num_vertices p})) ` set [\<lparr>num_vertices = 1, u_sub = [\<lambda>v. 3, \<lambda>v. - 4], h_f_X = (\<lambda>v. 2)\<rparr>, \<lparr>num_vertices = 2, u_sub = [\<lambda>v. if v = 0 then 0 else 6, \<lambda>v. 0], h_f_X = (\<lambda>v. 1)\<rparr>]))"
proof -
  have 1: "[\<lparr>num_vertices = 1, u_sub = [\<lambda>v. 3, \<lambda>v. - 4], h_f_X = (\<lambda>v. 2)\<rparr>, \<lparr>num_vertices = 2, u_sub = [\<lambda>v. if v = 0 then 0 else 6, \<lambda>v. 0], h_f_X = (\<lambda>v. 1)\<rparr>] \<noteq> []"
    by simp
  have 2: "\<forall>p \<in> set [\<lparr>num_vertices = 1, u_sub = [\<lambda>v. 3, \<lambda>v. - 4], h_f_X = (\<lambda>v. 2)\<rparr>, \<lparr>num_vertices = 2, u_sub = [\<lambda>v. if v = 0 then 0 else 6, \<lambda>v. 0], h_f_X = (\<lambda>v. 1)\<rparr>]. 0 < num_vertices p \<and> (\<forall>v < num_vertices p. 0 < h_f_X p v)"
    by simp
  show ?thesis
    using DENO_estimates [OF 1 2] by (rule conjunct1)
qed

end
